theory Spec2Isabelle
  imports Main "HOL-Library.Sublist"
begin

section \<open>The question-answering notebook\<close>

text \<open>
  The program is the notebook \<^verbatim>\<open>simple_question_answering_agent.ipynb\<close>: five code
  cells that load the API credential, construct the chat model, define the prompt
  template, pipe the template into the model, and define \<^verbatim>\<open>get_answer\<close>.

  Python strings are modelled as \<open>string\<close>: the bytes of their UTF-8 encoding. The
  template only searches for the ASCII characters \<open>{\<close> and \<open>}\<close>, and substitution is
  concatenation, so both commute with the encoding.
\<close>

subsection \<open>Exceptions\<close>

text \<open>
  The exceptions the notebook's statements can raise. \<open>Raised x\<close> is an exception
  \<open>x\<close> raised inside the client library (the chat model's constructor, or the
  completion call): the notebook has no \<^verbatim>\<open>try\<close>, so it passes through unchanged.
  \<open>Unsupported\<close> is not a Python exception: it marks a replacement field that uses a
  feature of the format mini-language this model does not cover (see \<open>field_name\<close>).
\<close>

datatype 'x error =
    TypeError
  | ValueError
  | IndexError
  | KeyError "string list"
  | AttributeError string
  | Unsupported
  | Raised 'x

subsection \<open>Cell 1: the environment\<close>

text \<open>
  \<^verbatim>\<open>
  load_dotenv()
  os.environ["OPENAI_API_KEY"] = os.getenv('OPENAI_API_KEY')
  \<close>
  The process environment is a map from names to values. \<open>load_dotenv\<close> adds the
  entries of the \<^verbatim>\<open>.env\<close> file (here a map as well, empty when there is no file) that
  the environment does not define already. \<open>os.getenv\<close> returns \<^verbatim>\<open>None\<close> for a name
  that is not set. Assigning to \<open>os.environ\<close> raises \<^verbatim>\<open>TypeError\<close> when the value is
  not a string, and \<^verbatim>\<open>ValueError\<close> when it holds a null byte.
\<close>

type_synonym environ = "string \<rightharpoonup> string"

definition load_dotenv :: "environ \<Rightarrow> environ \<Rightarrow> environ" where
  "load_dotenv dotenv env = dotenv ++ env"

definition os_getenv :: "environ \<Rightarrow> string \<Rightarrow> string option" where
  "os_getenv env k = env k"

definition environ_setitem :: "environ \<Rightarrow> string \<Rightarrow> string option \<Rightarrow> 'x error + environ" where
  "environ_setitem env k v =
     (case v of
        None \<Rightarrow> Inl TypeError
      | Some s \<Rightarrow> if CHR 0x00 \<in> set s then Inl ValueError else Inr (env(k \<mapsto> s)))"

definition cell_imports :: "environ \<Rightarrow> environ \<Rightarrow> 'x error + environ" where
  "cell_imports dotenv env =
     (let env1 = load_dotenv dotenv env
      in environ_setitem env1 ''OPENAI_API_KEY'' (os_getenv env1 ''OPENAI_API_KEY''))"

subsection \<open>Cell 2: the chat model\<close>

text \<open>
  \<^verbatim>\<open>
  llm = ChatOpenAI(model="gpt-4o-mini", max_tokens=1000, temperature=0)
  \<close>
  The object keeps the keyword arguments it was given. The constructor belongs to the
  client library, whose code is not part of the notebook: what it demands of the
  environment is the parameter \<open>validate\<close>, which returns the exception the
  constructor raises, or \<open>None\<close> when it accepts the environment.
\<close>

record chat_openai =
  model :: string
  max_tokens :: int
  temperature :: int

definition ChatOpenAI ::
  "(environ \<Rightarrow> 'x option) \<Rightarrow> environ \<Rightarrow> string \<Rightarrow> int \<Rightarrow> int \<Rightarrow> 'x error + chat_openai" where
  "ChatOpenAI validate env m n t =
     (case validate env of
        Some x \<Rightarrow> Inl (Raised x)
      | None \<Rightarrow> Inr \<lparr>model = m, max_tokens = n, temperature = t\<rparr>)"

definition cell_llm :: "(environ \<Rightarrow> 'x option) \<Rightarrow> environ \<Rightarrow> 'x error + chat_openai" where
  "cell_llm validate env = ChatOpenAI validate env ''gpt-4o-mini'' 1000 0"

subsection \<open>Cell 3: the prompt template\<close>

text \<open>
  \<^verbatim>\<open>
  template = """
  You are a helpful AI assistant. Your task is to answer the user's question to the best of your ability.

  User's question: {question}

  Please provide a clear and concise answer:
  """
  prompt = PromptTemplate(template=template, input_variables=["question"])
  \<close>
\<close>

definition template :: string where
  "template =
     ''\<newline>You are a helpful AI assistant. Your task is to answer the user's question to the best of your ability.\<newline>\<newline>User's question: {question}\<newline>\<newline>Please provide a clear and concise answer:\<newline>''"

record prompt_template =
  pt_template :: string
  pt_input_variables :: "string list"

definition PromptTemplate :: "string \<Rightarrow> string list \<Rightarrow> prompt_template" where
  "PromptTemplate t vs = \<lparr>pt_template = t, pt_input_variables = vs\<rparr>"

definition prompt :: prompt_template where
  "prompt = PromptTemplate template [''question'']"

text \<open>
  Formatting is Python's \<^verbatim>\<open>str.format\<close> with keyword arguments only, which reads
  the template from left to right. \<open>field_name\<close> reads a replacement field after its
  opening brace, up to the closing one, and returns the name and the rest of the
  template. A conversion (\<open>!\<close>), a format specification (\<open>:\<close>), an attribute (\<open>.\<close>) or
  an index (\<open>[\<close>) is outside the model.
\<close>

fun field_name :: "string \<Rightarrow> 'x error + string \<times> string" where
  "field_name [] = Inl ValueError"
| "field_name (c # cs) =
     (if c = CHR ''}'' then Inr ([], cs)
      else if c = CHR ''{'' then Inl ValueError
      else if c \<in> set ''!:.['' then Inl Unsupported
      else (case field_name cs of
              Inl e \<Rightarrow> Inl e
            | Inr (n, rest) \<Rightarrow> Inr (c # n, rest)))"

definition positional :: "string \<Rightarrow> bool" where
  "positional n = list_all (\<lambda>c. c \<in> set ''0123456789'') n"

definition prepend :: "string \<Rightarrow> 'x error + string \<Rightarrow> 'x error + string" where
  "prepend s r = (case r of Inl e \<Rightarrow> Inl e | Inr t \<Rightarrow> Inr (s @ t))"

lemma field_name_shorter: "field_name cs = Inr (n, rest) \<Longrightarrow> length rest < length cs"
  by (induction cs arbitrary: n) (auto split: if_splits sum.splits)

text \<open>
  \<open>vformat\<close>: a doubled brace stands for the brace itself; a single closing brace,
  and an opening brace at the end, raise \<^verbatim>\<open>ValueError\<close>; a field with an empty name or a
  number asks for a positional argument, of which there is none
  (\<^verbatim>\<open>IndexError\<close>); a named field is looked up among the keyword arguments
  (\<^verbatim>\<open>KeyError\<close> when it is missing) and its value is copied as it is: the value is
  never read as a template.
\<close>

function vformat :: "string \<Rightarrow> (string \<rightharpoonup> string) \<Rightarrow> 'x error + string" where
  "vformat [] kwargs = Inr []"
| "vformat (c # cs) kwargs =
     (if c = CHR ''{'' then
        (case cs of
           [] \<Rightarrow> Inl ValueError
         | d # ds \<Rightarrow>
             if d = CHR ''{'' then prepend ''{'' (vformat ds kwargs)
             else (case field_name cs of
                     Inl e \<Rightarrow> Inl e
                   | Inr (n, rest) \<Rightarrow>
                       if positional n then Inl IndexError
                       else (case kwargs n of
                               None \<Rightarrow> Inl (KeyError [n])
                             | Some v \<Rightarrow> prepend v (vformat rest kwargs))))
      else if c = CHR ''}'' then
        (case cs of
           [] \<Rightarrow> Inl ValueError
         | d # ds \<Rightarrow>
             if d = CHR ''}'' then prepend ''}'' (vformat ds kwargs)
             else Inl ValueError)
      else prepend [c] (vformat cs kwargs))"
  by pat_completeness auto
termination
  by (relation "measure (\<lambda>(t, kwargs). length t)")
     (auto simp del: field_name.simps dest!: field_name_shorter)

text \<open>
  \<open>prompt.invoke(d)\<close> checks that the dictionary defines every input variable
  (\<^verbatim>\<open>KeyError\<close> naming the missing ones), then formats the template with the
  dictionary's entries as keyword arguments.
\<close>

definition PromptTemplate_invoke :: "prompt_template \<Rightarrow> (string \<rightharpoonup> string) \<Rightarrow> 'x error + string" where
  "PromptTemplate_invoke p d =
     (case filter (\<lambda>v. d v = None) (pt_input_variables p) of
        [] \<Rightarrow> vformat (pt_template p) d
      | m # ms \<Rightarrow> Inl (KeyError (m # ms)))"

subsection \<open>The completion service and runnables\<close>

text \<open>
  Invoking the chat model hands one completion request to the client library: the
  prompt as the only message, under the model name, token budget and temperature of
  the object. The library and the remote service behind it are outside the program
  and are the parameter \<open>client\<close>: a request gets a response object, or an exception
  of the library. A response object is modelled by its attributes (name to text).
  The list of the requests handed to the client so far is the only state: it records
  the program's effect on the outside.
\<close>

record request =
  req_model :: string
  req_max_tokens :: int
  req_temperature :: int
  req_prompt :: string

type_synonym py_object = "string \<rightharpoonup> string"

type_synonym 'x client = "request \<Rightarrow> 'x + py_object"

type_synonym ('x, 'a) io = "request list \<Rightarrow> ('x error + 'a) \<times> request list"

definition build_request :: "chat_openai \<Rightarrow> string \<Rightarrow> request" where
  "build_request l p =
     \<lparr>req_model = model l, req_max_tokens = max_tokens l,
      req_temperature = temperature l, req_prompt = p\<rparr>"

definition ChatOpenAI_invoke :: "'x client \<Rightarrow> chat_openai \<Rightarrow> string \<Rightarrow> ('x, py_object) io" where
  "ChatOpenAI_invoke client l p sent =
     (let r = build_request l p
      in (case client r of
            Inl x \<Rightarrow> Inl (Raised x)
          | Inr resp \<Rightarrow> Inr resp,
          sent @ [r]))"

text \<open>The template as a runnable: formatting sends nothing.\<close>

definition prompt_runnable :: "prompt_template \<Rightarrow> (string \<rightharpoonup> string) \<Rightarrow> ('x, string) io" where
  "prompt_runnable p d sent = (PromptTemplate_invoke p d, sent)"

text \<open>
  \<open>a | b\<close>: the sequence runs \<open>a\<close>, then \<open>b\<close> on its output; an exception of \<open>a\<close>
  ends the sequence.
\<close>

definition pipe :: "('a \<Rightarrow> ('x, 'b) io) \<Rightarrow> ('b \<Rightarrow> ('x, 'c) io) \<Rightarrow> 'a \<Rightarrow> ('x, 'c) io" where
  "pipe f g a sent =
     (case f a sent of
        (Inl e, sent') \<Rightarrow> (Inl e, sent')
      | (Inr b, sent') \<Rightarrow> g b sent')"

text \<open>Attribute access \<open>obj.name\<close>: \<^verbatim>\<open>AttributeError\<close> when the object has no such attribute.\<close>

definition getattr :: "py_object \<Rightarrow> string \<Rightarrow> 'x error + string" where
  "getattr obj name = (case obj name of None \<Rightarrow> Inl (AttributeError name) | Some v \<Rightarrow> Inr v)"

subsection \<open>The notebook's names, cells 4 and 5\<close>

text \<open>
  The names the cells bind, once cells 1 to 3 have run without an exception. Running
  the cells from the top stops at the first exception, so a failing cell leaves no
  notebook in which \<open>get_answer\<close> could be called.
\<close>

record notebook =
  nb_environ :: environ
  nb_llm :: chat_openai
  nb_template :: string
  nb_prompt :: prompt_template

definition run_cells :: "(environ \<Rightarrow> 'x option) \<Rightarrow> environ \<Rightarrow> environ \<Rightarrow> 'x error + notebook" where
  "run_cells validate dotenv env =
     (case cell_imports dotenv env of
        Inl e \<Rightarrow> Inl e
      | Inr env' \<Rightarrow>
          (case cell_llm validate env' of
             Inl e \<Rightarrow> Inl e
           | Inr l \<Rightarrow>
               Inr \<lparr>nb_environ = env', nb_llm = l, nb_template = template, nb_prompt = prompt\<rparr>))"

text \<open>
  \<^verbatim>\<open>
  qa_chain = prompt | llm
  \<close>
\<close>

definition qa_chain :: "'x client \<Rightarrow> notebook \<Rightarrow> (string \<rightharpoonup> string) \<Rightarrow> ('x, py_object) io" where
  "qa_chain client nb = pipe (prompt_runnable (nb_prompt nb)) (ChatOpenAI_invoke client (nb_llm nb))"

text \<open>
  \<^verbatim>\<open>
  def get_answer(question):
      input_variables = {"question": question}
      response = qa_chain.invoke(input_variables).content
      return response
  \<close>
\<close>

definition get_answer :: "'x client \<Rightarrow> notebook \<Rightarrow> string \<Rightarrow> ('x, string) io" where
  "get_answer client nb question sent =
     (let input_variables = [''question'' \<mapsto> question]
      in (case qa_chain client nb input_variables sent of
            (Inl e, sent') \<Rightarrow> (Inl e, sent')
          | (Inr resp, sent') \<Rightarrow> (getattr resp ''content'', sent')))"

subsection \<open>Stubs and example values\<close>

text \<open>
  Values for the examples: a validation that accepts every environment and one that
  rejects an empty credential; a client that always answers \<open>Paris.\<close>, one whose
  response object has no attribute at all, and one that always raises; an environment
  with a credential, a \<^verbatim>\<open>.env\<close> file with one, and the notebook the cells build from
  the environment.
\<close>

definition accept_environment :: "environ \<Rightarrow> string option" where
  "accept_environment env = None"

definition reject_blank_key :: "environ \<Rightarrow> string option" where
  "reject_blank_key env =
     (if env ''OPENAI_API_KEY'' = Some [] then Some ''ValueError'' else None)"

definition stub_paris :: "string client" where
  "stub_paris r = Inr [''content'' \<mapsto> ''Paris.'']"

definition stub_no_content :: "string client" where
  "stub_no_content r = Inr Map.empty"

definition stub_fault :: "string client" where
  "stub_fault r = Inl ''APIConnectionError''"

definition example_environ :: environ where
  "example_environ = [''OPENAI_API_KEY'' \<mapsto> ''sk-test'']"

definition example_dotenv :: environ where
  "example_dotenv = [''OPENAI_API_KEY'' \<mapsto> ''sk-file'']"

definition example_notebook :: notebook where
  "example_notebook =
     \<lparr>nb_environ = example_environ,
      nb_llm = \<lparr>model = ''gpt-4o-mini'', max_tokens = 1000, temperature = 0\<rparr>,
      nb_template = template, nb_prompt = prompt\<rparr>"

section \<open>Properties\<close>

subsection \<open>Formatting the template\<close>

lemma prepend_Inr: "prepend s (Inr t) = Inr (s @ t)"
  by (simp add: prepend_def)

text \<open>Text without braces is copied.\<close>

lemma vformat_plain:
  "CHR ''{'' \<notin> set s \<Longrightarrow> CHR ''}'' \<notin> set s \<Longrightarrow> vformat (s @ t) kw = prepend s (vformat t kw)"
  by (induction s) (auto simp: prepend_def split: sum.splits)

lemma vformat_question:
  "vformat (''{question}'' @ t) kw =
     (case kw ''question'' of
        None \<Rightarrow> Inl (KeyError [''question''])
      | Some v \<Rightarrow> prepend v (vformat t kw))"
  by (simp add: positional_def)

lemma template_split:
  "template =
     ''\<newline>You are a helpful AI assistant. Your task is to answer the user's question to the best of your ability.\<newline>\<newline>User's question: ''
     @ ''{question}'' @ ''\<newline>\<newline>Please provide a clear and concise answer:\<newline>'' @ []"
  by (simp add: template_def)

lemma vformat_template:
  "vformat template [''question'' \<mapsto> q] =
     Inr (''\<newline>You are a helpful AI assistant. Your task is to answer the user's question to the best of your ability.\<newline>\<newline>User's question: ''
          @ q @ ''\<newline>\<newline>Please provide a clear and concise answer:\<newline>'')"
proof -
  let ?pre = "''\<newline>You are a helpful AI assistant. Your task is to answer the user's question to the best of your ability.\<newline>\<newline>User's question: ''"
  let ?suf = "''\<newline>\<newline>Please provide a clear and concise answer:\<newline>''"
  let ?kw = "[''question'' \<mapsto> q]"
  have pre: "CHR ''{'' \<notin> set ?pre" "CHR ''}'' \<notin> set ?pre"
    by simp_all
  have suf: "CHR ''{'' \<notin> set ?suf" "CHR ''}'' \<notin> set ?suf"
    by simp_all
  have "vformat (?suf @ []) ?kw = prepend ?suf (vformat [] ?kw)"
    by (rule vformat_plain [OF suf])
  then have tail: "vformat (?suf @ []) ?kw = Inr ?suf"
    by (simp only: vformat.simps prepend_Inr append_Nil2)
  have "vformat (''{question}'' @ ?suf @ []) ?kw = prepend q (vformat (?suf @ []) ?kw)"
    by (simp only: vformat_question fun_upd_same option.case)
  then have field: "vformat (''{question}'' @ ?suf @ []) ?kw = Inr (q @ ?suf)"
    by (simp only: tail prepend_Inr)
  have "vformat (?pre @ ''{question}'' @ ?suf @ []) ?kw
          = prepend ?pre (vformat (''{question}'' @ ?suf @ []) ?kw)"
    by (rule vformat_plain [OF pre])
  then have "vformat (?pre @ ''{question}'' @ ?suf @ []) ?kw = Inr (?pre @ q @ ?suf)"
    by (simp only: field prepend_Inr)
  then show ?thesis
    by (simp only: template_split)
qed

text \<open>A dictionary that defines \<open>question\<close> passes the check of the input variables.\<close>

lemma prompt_invoke_vformat:
  "d ''question'' = Some q \<Longrightarrow> PromptTemplate_invoke prompt d = vformat template d"
  by (simp add: PromptTemplate_invoke_def prompt_def PromptTemplate_def)

subsection \<open>The cells and one call\<close>

lemma run_cells_names:
  assumes "run_cells validate dotenv env = Inr nb"
  shows "nb_llm nb = \<lparr>model = ''gpt-4o-mini'', max_tokens = 1000, temperature = 0\<rparr>"
    and "nb_prompt nb = prompt"
    and "nb_template nb = template"
  using assms
  by (auto simp: run_cells_def cell_llm_def ChatOpenAI_def split: sum.splits option.splits)

text \<open>
  One call, once the prompt is rendered: the request is handed to the client, and the
  outcome is the client's exception or the attribute \<open>content\<close> of its response.
\<close>

lemma get_answer_step:
  fixes client :: "'x client"
  assumes "PromptTemplate_invoke (nb_prompt nb) [''question'' \<mapsto> q] = (Inr p :: 'x error + string)"
  shows "get_answer client nb q sent =
           (case client (build_request (nb_llm nb) p) of
              Inl x \<Rightarrow> Inl (Raised x)
            | Inr resp \<Rightarrow> getattr resp ''content'',
            sent @ [build_request (nb_llm nb) p])"
  using assms
  by (cases "client (build_request (nb_llm nb) p)")
     (simp_all add: get_answer_def qa_chain_def pipe_def prompt_runnable_def
       ChatOpenAI_invoke_def Let_def)

lemma run_cells_example:
  "run_cells accept_environment Map.empty example_environ = Inr example_notebook"
  by (simp add: run_cells_def cell_imports_def load_dotenv_def os_getenv_def
      environ_setitem_def cell_llm_def ChatOpenAI_def accept_environment_def
      example_environ_def example_notebook_def)

lemma render_example:
  "PromptTemplate_invoke (nb_prompt example_notebook) [''question'' \<mapsto> ''What is the capital of France?''] =
     Inr (''\<newline>You are a helpful AI assistant. Your task is to answer the user's question to the best of your ability.\<newline>\<newline>User's question: ''
          @ ''What is the capital of France?'' @ ''\<newline>\<newline>Please provide a clear and concise answer:\<newline>'')"
  by (simp only: example_notebook_def notebook.simps prompt_invoke_vformat [OF fun_upd_same] vformat_template)

lemma prompt_invoke_succeeds:
  "\<exists>p. (PromptTemplate_invoke prompt [''question'' \<mapsto> q] :: 'x error + string) = Inr p"
proof -
  have "\<exists>p. (vformat template [''question'' \<mapsto> q] :: 'x error + string) = Inr p"
    unfolding vformat_template by (rule exI) (rule refl)
  then show ?thesis
    by (simp only: prompt_invoke_vformat [OF fun_upd_same])
qed

text \<open>
  One call in a notebook the cells have built: the prompt renders, and the request
  carries the chat model's three settings.
\<close>

lemma get_answer_in_notebook:
  fixes client :: "'x client" and validate :: "environ \<Rightarrow> 'y option"
  assumes "run_cells validate dotenv env = Inr nb"
  shows "\<exists>p. (PromptTemplate_invoke prompt [''question'' \<mapsto> q] :: 'x error + string) = Inr p \<and>
           (\<forall>sent. get_answer client nb q sent =
             (case client (build_request \<lparr>model = ''gpt-4o-mini'', max_tokens = 1000, temperature = 0\<rparr> p) of
                Inl x \<Rightarrow> Inl (Raised x)
              | Inr resp \<Rightarrow> getattr resp ''content'',
              sent @ [build_request \<lparr>model = ''gpt-4o-mini'', max_tokens = 1000, temperature = 0\<rparr> p]))"
proof -
  obtain p where p: "(PromptTemplate_invoke prompt [''question'' \<mapsto> q] :: 'x error + string) = Inr p"
    using prompt_invoke_succeeds by blast
  then have "(PromptTemplate_invoke (nb_prompt nb) [''question'' \<mapsto> q] :: 'x error + string) = Inr p"
    by (simp only: run_cells_names(2) [OF assms])
  from get_answer_step [OF this] p show ?thesis
    by (simp only: run_cells_names(1) [OF assms]) blast
qed

lemma run_cells_dotenv_example:
  "run_cells accept_environment example_dotenv Map.empty =
     Inr (example_notebook\<lparr>nb_environ := example_dotenv\<rparr>)"
  by (simp add: run_cells_def cell_imports_def load_dotenv_def os_getenv_def
      environ_setitem_def cell_llm_def ChatOpenAI_def accept_environment_def
      example_dotenv_def example_notebook_def)

section \<open>The claims\<close>

text \<open>
  C1. \<open>get_answer\<close> returns the attribute \<open>content\<close> of the response the client
  produced for the rendered prompt, as it is: whatever text \<open>a\<close> the response holds
  (empty, or with surrounding blanks) is the result. The example of the notebook, with
  a client that always answers \<open>Paris.\<close>, is the instance below.
\<close>

theorem get_answer_returns_content:
  fixes client :: "'x client"
  assumes "PromptTemplate_invoke (nb_prompt nb) [''question'' \<mapsto> q] = (Inr p :: 'x error + string)"
    and "client (build_request (nb_llm nb) p) = Inr resp"
    and "resp ''content'' = Some a"
  shows "fst (get_answer client nb q sent) = Inr a"
  by (simp add: get_answer_step [OF assms(1)] assms(2,3) getattr_def)

theorem get_answer_returns_content_witness:
  "fst (get_answer stub_paris example_notebook ''What is the capital of France?'' []) = Inr ''Paris.''"
  using get_answer_returns_content
    [where client = stub_paris and resp = "[''content'' \<mapsto> ''Paris.'']"
       and a = "''Paris.''" and sent = "[]", OF render_example]
  by (simp add: stub_paris_def)

text \<open>
  C2. For every question \<open>q\<close>, the rendered prompt contains \<open>q\<close> as it is, between a
  text before and a text after that are the same for every question.
\<close>

theorem render_contains_question:
  "\<exists>pre suf. \<forall>q.
     (PromptTemplate_invoke prompt [''question'' \<mapsto> q] :: 'x error + string) = Inr (pre @ q @ suf)
     \<and> sublist q (pre @ q @ suf)"
proof (intro exI allI conjI)
  fix q :: string
  show "(PromptTemplate_invoke prompt [''question'' \<mapsto> q] :: 'x error + string) =
          Inr (''\<newline>You are a helpful AI assistant. Your task is to answer the user's question to the best of your ability.\<newline>\<newline>User's question: ''
               @ q @ ''\<newline>\<newline>Please provide a clear and concise answer:\<newline>'')"
    by (simp only: prompt_invoke_vformat [OF fun_upd_same] vformat_template)
  show "sublist q (''\<newline>You are a helpful AI assistant. Your task is to answer the user's question to the best of your ability.\<newline>\<newline>User's question: ''
               @ q @ ''\<newline>\<newline>Please provide a clear and concise answer:\<newline>'')"
    by (rule sublist_appendI)
qed

theorem render_contains_question_witness:
  "\<exists>pre suf.
     (PromptTemplate_invoke prompt [''question'' \<mapsto> ''2+2?''] :: string error + string) = Inr (pre @ ''2+2?'' @ suf)
     \<and> (PromptTemplate_invoke prompt [''question'' \<mapsto> ''{question}''] :: string error + string) = Inr (pre @ ''{question}'' @ suf)
     \<and> sublist ''2+2?'' (pre @ ''2+2?'' @ suf)"
  using render_contains_question [where ?'x = string]
  by blast

text \<open>
  C3. Rendering is total and pure: for every question, the empty one and one of any
  characters included, the template as a runnable returns a prompt and raises
  nothing, the prompt is the same whatever has been sent before, and the list of
  requests sent is left as it was.
\<close>

theorem render_total_pure:
  "\<exists>s. \<forall>sent. (prompt_runnable prompt [''question'' \<mapsto> q] sent :: ('x error + string) \<times> request list) = (Inr s, sent)"
proof -
  obtain p where "(PromptTemplate_invoke prompt [''question'' \<mapsto> q] :: 'x error + string) = Inr p"
    using prompt_invoke_succeeds by blast
  then have "\<forall>sent. (prompt_runnable prompt [''question'' \<mapsto> q] sent :: ('x error + string) \<times> request list) = (Inr p, sent)"
    by (simp only: prompt_runnable_def simp_thms)
  then show ?thesis ..
qed

theorem render_total_pure_witness:
  "\<exists>s. (prompt_runnable prompt [''question'' \<mapsto> []] [] :: (string error + string) \<times> request list) = (Inr s, [])
     \<and> (prompt_runnable prompt [''question'' \<mapsto> []] [build_request (nb_llm example_notebook) ''x''] :: (string error + string) \<times> request list)
         = (Inr s, [build_request (nb_llm example_notebook) ''x''])"
  using render_total_pure [of "[]", where ?'x = string] by blast

text \<open>
  C4. When the response object of the client has no attribute \<open>content\<close>,
  \<open>get_answer\<close> fails: the attribute access raises \<^verbatim>\<open>AttributeError\<close> (the failure the
  specification names ResponseShapeError), and no string, in particular not the empty
  one, is returned.
\<close>

theorem get_answer_missing_content:
  fixes client :: "'x client"
  assumes "PromptTemplate_invoke (nb_prompt nb) [''question'' \<mapsto> q] = (Inr p :: 'x error + string)"
    and "client (build_request (nb_llm nb) p) = Inr resp"
    and "resp ''content'' = None"
  shows "fst (get_answer client nb q sent) = Inl (AttributeError ''content'')
         \<and> fst (get_answer client nb q sent) \<noteq> Inr []"
  by (simp add: get_answer_step [OF assms(1)] assms(2,3) getattr_def)

theorem get_answer_missing_content_witness:
  "fst (get_answer stub_no_content example_notebook ''What is the capital of France?'' []) = Inl (AttributeError ''content'')
   \<and> fst (get_answer stub_no_content example_notebook ''What is the capital of France?'' []) \<noteq> Inr []"
  using get_answer_missing_content
    [where client = stub_no_content and resp = "Map.empty" and sent = "[]", OF render_example]
  by (simp add: stub_no_content_def)

text \<open>
  C5. When the client raises an exception \<open>x\<close> for the request, \<open>get_answer\<close> ends
  with that same exception, and the client has been handed exactly that one request:
  starting from no request sent, one request has been sent afterwards.
\<close>

theorem get_answer_propagates_fault:
  fixes client :: "'x client"
  assumes "PromptTemplate_invoke (nb_prompt nb) [''question'' \<mapsto> q] = (Inr p :: 'x error + string)"
    and "client (build_request (nb_llm nb) p) = Inl x"
  shows "get_answer client nb q sent = (Inl (Raised x), sent @ [build_request (nb_llm nb) p])
         \<and> length (snd (get_answer client nb q [])) = 1"
  by (simp add: get_answer_step [OF assms(1)] assms(2))

theorem get_answer_propagates_fault_witness:
  "fst (get_answer stub_fault example_notebook ''What is the capital of France?'' []) = Inl (Raised ''APIConnectionError'')
   \<and> length (snd (get_answer stub_fault example_notebook ''What is the capital of France?'' [])) = 1"
  using get_answer_propagates_fault
    [where client = stub_fault and x = "''APIConnectionError''" and sent = "[]", OF render_example]
  by (simp add: stub_fault_def)

text \<open>
  C6, as the cells have it. When the credential is absent (neither the process
  environment nor the \<^verbatim>\<open>.env\<close> file defines it), running the cells fails with
  \<^verbatim>\<open>TypeError\<close> at the assignment to \<open>os.environ\<close> in cell 1, whatever the client
  library would accept: no chat model is constructed and no notebook exists in which
  \<open>get_answer\<close> could be called. When the credential is present and empty, cell 1
  passes it on unchanged, and the cells fail exactly when the constructor of the
  client library raises.
\<close>

theorem credential_checked_by_cells:
  fixes validate :: "environ \<Rightarrow> 'x option"
  shows "(load_dotenv dotenv env ''OPENAI_API_KEY'' = None \<longrightarrow>
            run_cells validate dotenv env = Inl TypeError)
       \<and> (load_dotenv dotenv env ''OPENAI_API_KEY'' = Some [] \<longrightarrow>
            run_cells validate dotenv env =
              (case validate (load_dotenv dotenv env) of
                 Some x \<Rightarrow> Inl (Raised x)
               | None \<Rightarrow>
                   Inr \<lparr>nb_environ = load_dotenv dotenv env,
                        nb_llm = \<lparr>model = ''gpt-4o-mini'', max_tokens = 1000, temperature = 0\<rparr>,
                        nb_template = template, nb_prompt = prompt\<rparr>))"
proof (intro conjI impI)
  assume "load_dotenv dotenv env ''OPENAI_API_KEY'' = None"
  then show "run_cells validate dotenv env = Inl TypeError"
    by (simp add: run_cells_def cell_imports_def os_getenv_def environ_setitem_def Let_def)
next
  let ?env = "load_dotenv dotenv env"
  assume k: "?env ''OPENAI_API_KEY'' = Some []"
  then have "?env(''OPENAI_API_KEY'' \<mapsto> []) = ?env"
    by (rule map_upd_triv)
  with k have "cell_imports dotenv env = (Inr ?env :: 'x error + environ)"
    by (simp add: cell_imports_def os_getenv_def environ_setitem_def Let_def)
  then show "run_cells validate dotenv env =
              (case validate ?env of
                 Some x \<Rightarrow> Inl (Raised x)
               | None \<Rightarrow>
                   Inr \<lparr>nb_environ = ?env,
                        nb_llm = \<lparr>model = ''gpt-4o-mini'', max_tokens = 1000, temperature = 0\<rparr>,
                        nb_template = template, nb_prompt = prompt\<rparr>)"
    by (simp add: run_cells_def cell_llm_def ChatOpenAI_def split: option.splits)
qed

theorem credential_checked_by_cells_witness:
  "run_cells accept_environment Map.empty Map.empty = Inl TypeError
   \<and> run_cells reject_blank_key Map.empty [''OPENAI_API_KEY'' \<mapsto> []] = Inl (Raised ''ValueError'')"
  using credential_checked_by_cells [of Map.empty Map.empty accept_environment]
    credential_checked_by_cells [of Map.empty "[''OPENAI_API_KEY'' \<mapsto> []]" reject_blank_key]
  by (simp add: load_dotenv_def reject_blank_key_def)

text \<open>
  C6 as stated fails for the empty credential: with a client library whose
  constructor accepts the environment, the cells run through with the credential
  \<open>''''\<close> and build the notebook, so that the failure is left to the call.
\<close>

theorem empty_credential_accepted:
  "os_getenv [''OPENAI_API_KEY'' \<mapsto> []] ''OPENAI_API_KEY'' = Some []
   \<and> run_cells accept_environment Map.empty [''OPENAI_API_KEY'' \<mapsto> []] =
       Inr \<lparr>nb_environ = [''OPENAI_API_KEY'' \<mapsto> []],
            nb_llm = \<lparr>model = ''gpt-4o-mini'', max_tokens = 1000, temperature = 0\<rparr>,
            nb_template = template, nb_prompt = prompt\<rparr>"
  by (simp add: run_cells_def cell_imports_def load_dotenv_def os_getenv_def
      environ_setitem_def cell_llm_def ChatOpenAI_def accept_environment_def)

text \<open>
  C7. One call of \<open>get_answer\<close> hands exactly one request to the client, whether the
  client answers or raises; running the template alone, on any dictionary, hands it
  none.
\<close>

theorem one_request_per_call:
  fixes client :: "'x client" and validate :: "environ \<Rightarrow> 'y option"
  assumes "run_cells validate dotenv env = Inr nb"
  shows "length (snd (get_answer client nb q sent)) = length sent + 1
         \<and> snd (prompt_runnable (nb_prompt nb) d sent :: ('x error + string) \<times> request list) = sent"
proof -
  from get_answer_in_notebook [OF assms, of q client]
  have "length (snd (get_answer client nb q sent)) = length sent + 1"
    by auto
  then show ?thesis
    by (simp add: prompt_runnable_def)
qed

theorem one_request_per_call_witness:
  "length (snd (get_answer stub_paris example_notebook ''What is the capital of France?'' [])) = 1
   \<and> snd (prompt_runnable (nb_prompt example_notebook) [''question'' \<mapsto> ''What is the capital of France?''] []
           :: (string error + string) \<times> request list) = []"
  using one_request_per_call [OF run_cells_example, of stub_paris "''What is the capital of France?''" "[]"
      "[''question'' \<mapsto> ''What is the capital of France?'']"]
  by simp

text \<open>
  C8. The chat model the cells construct has the model name \<open>gpt-4o-mini\<close>, at most
  1000 output tokens and temperature 0, and every call of \<open>get_answer\<close>, after
  whatever calls came before, sends one request that carries exactly these three
  settings.
\<close>

theorem request_configuration:
  fixes client :: "'x client" and validate :: "environ \<Rightarrow> 'y option"
  assumes "run_cells validate dotenv env = Inr nb"
  shows "nb_llm nb = \<lparr>model = ''gpt-4o-mini'', max_tokens = 1000, temperature = 0\<rparr>
         \<and> (\<exists>r. snd (get_answer client nb q sent) = sent @ [r]
                \<and> req_model r = ''gpt-4o-mini'' \<and> req_max_tokens r = 1000 \<and> req_temperature r = 0)"
proof -
  from get_answer_in_notebook [OF assms, of q client]
  obtain p where "snd (get_answer client nb q sent) =
      sent @ [build_request \<lparr>model = ''gpt-4o-mini'', max_tokens = 1000, temperature = 0\<rparr> p]"
    by auto
  then have "\<exists>r. snd (get_answer client nb q sent) = sent @ [r]
                \<and> req_model r = ''gpt-4o-mini'' \<and> req_max_tokens r = 1000 \<and> req_temperature r = 0"
    by (simp add: build_request_def)
  with run_cells_names(1) [OF assms] show ?thesis
    by simp
qed

theorem request_configuration_witness:
  "nb_llm example_notebook = \<lparr>model = ''gpt-4o-mini'', max_tokens = 1000, temperature = 0\<rparr>
   \<and> (\<exists>r. snd (get_answer stub_paris example_notebook ''What is the capital of France?'' []) = [r]
          \<and> req_model r = ''gpt-4o-mini'' \<and> req_max_tokens r = 1000 \<and> req_temperature r = 0)"
  using request_configuration [OF run_cells_example, of stub_paris "''What is the capital of France?''" "[]"]
  by simp

text \<open>
  C9. The rendered prompt is the text of the template before the field, the question,
  and the text after the field, concatenated: the question is neither escaped nor read
  as a template.
\<close>

theorem render_exact:
  "(PromptTemplate_invoke prompt [''question'' \<mapsto> q] :: 'x error + string) =
     Inr (''\<newline>You are a helpful AI assistant. Your task is to answer the user's question to the best of your ability.\<newline>\<newline>User's question: ''
          @ q @ ''\<newline>\<newline>Please provide a clear and concise answer:\<newline>'')"
  by (simp only: prompt_invoke_vformat [OF fun_upd_same] vformat_template)

theorem render_exact_witness:
  "(PromptTemplate_invoke prompt [''question'' \<mapsto> ''a {b} c''] :: string error + string) =
     Inr ''\<newline>You are a helpful AI assistant. Your task is to answer the user's question to the best of your ability.\<newline>\<newline>User's question: a {b} c\<newline>\<newline>Please provide a clear and concise answer:\<newline>''"
  using render_exact [of "''a {b} c''", where ?'x = string] by simp

text \<open>
  C10. With the client a function of the request, the result of \<open>get_answer\<close> depends
  on the question and the client only: two notebooks the cells built, from any
  environments, with any requests sent before, give the same result; and a call leaves
  nothing behind that changes the result of a later call.
\<close>

theorem get_answer_determined:
  fixes client :: "'x client"
    and validate1 :: "environ \<Rightarrow> 'y option" and validate2 :: "environ \<Rightarrow> 'z option"
  assumes "run_cells validate1 dotenv1 env1 = Inr nb1"
    and "run_cells validate2 dotenv2 env2 = Inr nb2"
  shows "fst (get_answer client nb1 q sent1) = fst (get_answer client nb2 q sent2)
         \<and> fst (get_answer client nb1 q' (snd (get_answer client nb1 q sent1)))
             = fst (get_answer client nb1 q' sent1)"
proof -
  from get_answer_in_notebook [OF assms(1), of q client] get_answer_in_notebook [OF assms(2), of q client]
  have a: "fst (get_answer client nb1 q sent1) = fst (get_answer client nb2 q sent2)"
    by auto
  from get_answer_in_notebook [OF assms(1), of q' client]
  have "fst (get_answer client nb1 q' (snd (get_answer client nb1 q sent1)))
             = fst (get_answer client nb1 q' sent1)"
    by auto
  with a show ?thesis ..
qed

theorem get_answer_determined_witness:
  "fst (get_answer stub_paris example_notebook ''How are you?'' [])
     = fst (get_answer stub_paris (example_notebook\<lparr>nb_environ := example_dotenv\<rparr>) ''How are you?''
          [build_request (nb_llm example_notebook) ''x''])
   \<and> fst (get_answer stub_paris example_notebook ''How are you?''
          (snd (get_answer stub_paris example_notebook ''What is the capital of France?'' [])))
     = fst (get_answer stub_paris example_notebook ''How are you?'' [])"
  using get_answer_determined [OF run_cells_example run_cells_dotenv_example,
      of stub_paris "''What is the capital of France?''" "[]" "[build_request (nb_llm example_notebook) ''x'']" "''How are you?''"]
    get_answer_determined [OF run_cells_example run_cells_dotenv_example,
      of stub_paris "''How are you?''" "[]" "[build_request (nb_llm example_notebook) ''x'']" "''How are you?''"]
  by simp

end
